theory Spec2Isabelle
  imports Main "HOL-Library.Char_ord" "HOL-Library.List_Lexorder" "HOL-Library.Product_Lexorder"
    "HOL-Library.Multiset"
begin

section \<open>Strings and character classes\<close>

text \<open>
  A Python \<open>str\<close> is modelled as a \<open>string\<close>: a list of 8-bit characters, read as the
  code points U+0000 to U+00FF. The character classes below are the ones Python's
  \<open>str.strip()\<close> and the Unicode-aware \<open>re\<close> module use on these code points.
\<close>

definition is_space :: "char \<Rightarrow> bool" where
  \<comment> \<open>\<open>\s\<close> and the characters \<open>str.strip()\<close> removes: TAB..CR, FS..US, space, NEL, NBSP.\<close>
  "is_space c = (let n = (of_char c :: nat) in
     (9 \<le> n \<and> n \<le> 13) \<or> (28 \<le> n \<and> n \<le> 32) \<or> n = 133 \<or> n = 160)"

definition is_word :: "char \<Rightarrow> bool" where
  \<comment> \<open>\<open>\w\<close>: alphanumeric (as \<open>str.isalnum\<close>) or underscore.\<close>
  "is_word c = (let n = (of_char c :: nat) in
     (48 \<le> n \<and> n \<le> 57) \<or> (65 \<le> n \<and> n \<le> 90) \<or> n = 95 \<or> (97 \<le> n \<and> n \<le> 122) \<or>
     n = 170 \<or> n = 178 \<or> n = 179 \<or> n = 181 \<or> n = 185 \<or> n = 186 \<or>
     (188 \<le> n \<and> n \<le> 190) \<or> (192 \<le> n \<and> n \<le> 214) \<or> (216 \<le> n \<and> n \<le> 246) \<or>
     248 \<le> n)"

definition lower :: "char \<Rightarrow> char" where
  \<comment> \<open>Case folding of the letters A..Z, which is all that \<open>re.I\<close> needs for an ASCII literal.\<close>
  "lower c =
     (case map_of (zip ''ABCDEFGHIJKLMNOPQRSTUVWXYZ'' ''abcdefghijklmnopqrstuvwxyz'') c of
        None \<Rightarrow> c
      | Some l \<Rightarrow> l)"

definition strip :: "string \<Rightarrow> string" where
  "strip s = rev (dropWhile is_space (rev (dropWhile is_space s)))"

section \<open>The fragment of Python's \<open>re\<close> that the dialect uses\<close>

text \<open>
  Every pattern of the module is a sequence of literals, greedy repetitions of a character
  class and capture groups around them. A pattern is a list of tokens; \<open>run\<close> is the
  backtracking matcher at one position: a repetition first takes the longest run of its
  class and gives characters back one at a time while the rest of the pattern fails.
  The result is the captured groups, in order, and the text after the match.
\<close>

datatype tok =
    Lit string            \<comment> \<open>literal text\<close>
  | LitI string           \<comment> \<open>literal text under \<open>re.I\<close>\<close>
  | Rep "char \<Rightarrow> bool" nat  \<comment> \<open>greedy repetition of a class, at least \<open>n\<close> times\<close>
  | GOpen                 \<comment> \<open>\<open>(\<close>\<close>
  | GClose                \<comment> \<open>\<open>)\<close>\<close>

fun first_down :: "(nat \<Rightarrow> 'a option) \<Rightarrow> nat \<Rightarrow> nat \<Rightarrow> 'a option" where
  \<comment> \<open>the result of \<open>f\<close> at the first length, counting down to \<open>lo\<close>, at which it succeeds\<close>
  "first_down f lo 0 = (if lo = 0 then f 0 else None)"
| "first_down f lo (Suc k) =
     (if Suc k < lo then None
      else case f (Suc k) of Some r \<Rightarrow> Some r | None \<Rightarrow> first_down f lo k)"

fun run :: "tok list \<Rightarrow> string list \<Rightarrow> string option \<Rightarrow> string \<Rightarrow> (string list \<times> string) option" where
  "run [] gs cur s = Some (gs, s)"
| "run (Lit l # ts) gs cur s =
     (if take (length l) s = l
      then run ts gs (map_option (\<lambda>c. c @ l) cur) (drop (length l) s)
      else None)"
| "run (LitI l # ts) gs cur s =
     (if length l \<le> length s \<and> map lower (take (length l) s) = map lower l
      then run ts gs (map_option (\<lambda>c. c @ take (length l) s) cur) (drop (length l) s)
      else None)"
| "run (Rep p n # ts) gs cur s =
     first_down (\<lambda>k. run ts gs (map_option (\<lambda>c. c @ take k s) cur) (drop k s))
       n (length (takeWhile p s))"
| "run (GOpen # ts) gs cur s = run ts gs (Some []) s"
| "run (GClose # ts) gs cur s =
     run ts (gs @ [case cur of None \<Rightarrow> [] | Some c \<Rightarrow> c]) None s"

definition re_match :: "tok list \<Rightarrow> string \<Rightarrow> (string list \<times> string) option" where
  \<comment> \<open>\<open>re.match\<close>, and \<open>re.search\<close> with a pattern that starts with \<open>^\<close>: position 0 only.\<close>
  "re_match ts s = run ts [] None s"

fun re_search :: "tok list \<Rightarrow> string \<Rightarrow> (string list \<times> string) option" where
  \<comment> \<open>\<open>re.search\<close>: the match at the leftmost position that has one.\<close>
  "re_search ts [] = run ts [] None []"
| "re_search ts (c # cs) =
     (case run ts [] None (c # cs) of Some m \<Rightarrow> Some m | None \<Rightarrow> re_search ts cs)"

datatype piece = Text string | Group nat

definition group :: "nat \<Rightarrow> string list \<Rightarrow> string" where
  \<comment> \<open>\<open>m.group(n)\<close> for \<open>n \<ge> 1\<close>; the patterns below fix the number of groups.\<close>
  "group n gs = (if 0 < n \<and> n \<le> length gs then gs ! (n - 1) else [])"

fun expand :: "piece list \<Rightarrow> string list \<Rightarrow> string" where
  \<comment> \<open>a replacement template such as \<open>\1 TABLE \2\<close>, filled from a match\<close>
  "expand [] gs = []"
| "expand (Text t # ps) gs = t @ expand ps gs"
| "expand (Group n # ps) gs = group n gs @ expand ps gs"

function re_sub :: "tok list \<Rightarrow> piece list \<Rightarrow> string \<Rightarrow> string" where
  \<comment> \<open>\<open>pattern.sub(repl, s)\<close>: every match, left to right, is replaced; the search goes on
      behind a match; text outside the matches is copied.\<close>
  "re_sub ts repl s =
     (case run ts [] None s of
        Some (gs, r) \<Rightarrow>
          if length r < length s then expand repl gs @ re_sub ts repl r
          else expand repl gs @ (case s of [] \<Rightarrow> [] | c # cs \<Rightarrow> c # re_sub ts repl cs)
      | None \<Rightarrow> (case s of [] \<Rightarrow> [] | c # cs \<Rightarrow> c # re_sub ts repl cs))"
  by pat_completeness auto
termination
  by (relation "measure (\<lambda>(ts, repl, s). length s)") auto

section \<open>Errors\<close>

datatype error =
    OperationalError string
  | NoSuchTableError string
  | KeyError string
  | TypeError
  | AttributeError
  | AssertionError string
  | ValueError string
  | NotImplementedError string
  | UnboundLocalError
  | IndexError

section \<open>HiveCompiler\<close>

definition insert_regex :: "tok list" where
  "insert_regex =
     [GOpen, Lit ''INSERT INTO'', GClose, Lit '' '',
      GOpen, Rep (\<lambda>c. \<not> is_space c) 1, GClose,
      Lit '' ('', Rep (\<lambda>c. c \<noteq> CHR '')'') 0, Lit '')'']"

definition insert_partition_regex :: "tok list" where
  "insert_partition_regex =
     [GOpen, Lit ''INSERT INTO'', GClose, Lit '' '',
      GOpen, Rep (\<lambda>c. \<not> is_space c) 1, GClose, Lit '' '',
      GOpen, Lit ''PARTITION ('', Rep (\<lambda>c. c \<noteq> CHR '')'') 1, Lit '')'', GClose,
      Lit '' ('', Rep (\<lambda>c. c \<noteq> CHR '')'') 0, Lit '')'']"

definition visit_insert :: "string \<Rightarrow> error + string" where
  "visit_insert result =
     (if re_search insert_regex result \<noteq> None
      then Inr (re_sub insert_regex [Group 1, Text '' TABLE '', Group 2] result)
      else if re_search insert_partition_regex result \<noteq> None
      then Inr (re_sub insert_partition_regex
                  [Group 1, Text '' TABLE '', Group 2, Text '' '', Group 3] result)
      else Inl (AssertionError (''Unexpected visit_insert result: '' @ result)))"

definition visit_column :: "string \<Rightarrow> error + string" where
  "visit_column result =
     (let dot_count = length (filter (\<lambda>c. c = CHR ''.'') result) in
      if dot_count \<in> set [0, 1, 2]
      then (if dot_count = 2
            then Inr (drop (length (takeWhile (\<lambda>c. c \<noteq> CHR ''.'') result) + 1) result)
            else Inr result)
      else Inl (AssertionError (''Unexpected visit_column result '' @ result)))"

section \<open>The type classes and the registry \<open>_type_map\<close>\<close>

text \<open>
  The classes the module refers to. A column's \<open>type\<close> is one of these class objects
  (the registry holds classes, not instances).
\<close>

datatype sqltype =
    Boolean | MSTinyInteger | SmallInteger | Integer | BigInteger | Float | String
  | HiveStringTypeBase | HiveDate | HiveTimestamp | HiveDecimal | HiveArray | NullType

definition type_map :: "(string \<times> sqltype) list" where
  "type_map =
     [(''boolean'', Boolean), (''tinyint'', MSTinyInteger), (''smallint'', SmallInteger),
      (''int'', Integer), (''bigint'', BigInteger), (''float'', Float), (''double'', Float),
      (''string'', String), (''varchar'', String), (''char'', String), (''date'', HiveDate),
      (''timestamp'', HiveTimestamp), (''binary'', String), (''array'', HiveArray),
      (''map'', String), (''struct'', String), (''uniontype'', String),
      (''decimal'', HiveDecimal)]"

definition type_map_get :: "string \<Rightarrow> error + sqltype" where
  \<comment> \<open>\<open>_type_map[key]\<close>\<close>
  "type_map_get key = (case map_of type_map key of None \<Rightarrow> Inl (KeyError key) | Some t \<Rightarrow> Inr t)"

subsection \<open>HiveStringTypeBase and its subclasses\<close>

definition superclass :: "sqltype \<Rightarrow> sqltype option" where
  \<comment> \<open>The base class, for the classes whose base is defined in this module.\<close>
  "superclass c = (if c = HiveDate \<or> c = HiveTimestamp \<or> c = HiveDecimal
                   then Some HiveStringTypeBase else None)"

definition own_process_bind_param :: "sqltype \<Rightarrow> ('v \<Rightarrow> 'd \<Rightarrow> error + 'v) option" where
  \<comment> \<open>The \<open>process_bind_param\<close> a class body defines itself, if it does.\<close>
  "own_process_bind_param c =
     (if c = HiveStringTypeBase
      then Some (\<lambda>value dialect. Inl (NotImplementedError ''Writing to Hive not supported''))
      else None)"

definition process_bind_param :: "sqltype \<Rightarrow> ('v \<Rightarrow> 'd \<Rightarrow> error + 'v) option" where
  \<comment> \<open>Attribute lookup: the class's own method, else its base class's.\<close>
  "process_bind_param c =
     (case own_process_bind_param c of
        Some m \<Rightarrow> Some m
      | None \<Rightarrow> (case superclass c of None \<Rightarrow> None | Some b \<Rightarrow> own_process_bind_param b))"

subsection \<open>HiveArray\<close>

text \<open>
  A type object is an instance of one of the classes; a \<open>HiveArray\<close> instance carries the
  three attributes its constructor sets. The constructor's \<open>item_type\<close> argument is a type
  object, a class, or a registry name; the attribute it stores is a type object or a class.
\<close>

datatype type_engine =
    Instance sqltype
  | ArrayOf (item_type: item_value) (dimensions: "int option") (zero_indexes: bool)
and item_value = IsClass sqltype | IsObject type_engine

datatype item_arg = ByObject type_engine | ByClass sqltype | ByName string

fun class_of :: "type_engine \<Rightarrow> sqltype" where
  "class_of (Instance c) = c"
| "class_of (ArrayOf i d z) = HiveArray"

definition instantiate :: "sqltype \<Rightarrow> error + type_engine" where
  \<comment> \<open>\<open>cls()\<close>: every class but \<open>HiveArray\<close> can be built without arguments.\<close>
  "instantiate c = (if c = HiveArray then Inl TypeError else Inr (Instance c))"

fun HiveArray_init :: "item_arg \<Rightarrow> int option \<Rightarrow> bool \<Rightarrow> error + type_engine" where
  "HiveArray_init (ByObject t) dims zi =
     (if class_of t = HiveArray
      then Inl (ValueError ''Do not nest ARRAY types; ARRAY(basetype) handles multi-dimensional arrays of basetype'')
      else Inr (ArrayOf (IsObject t) dims zi))"
| "HiveArray_init (ByClass c) dims zi =
     (case instantiate c of
        Inl e \<Rightarrow> Inl e
      | Inr t \<Rightarrow> Inr (ArrayOf (IsObject t) dims zi))"
| "HiveArray_init (ByName n) dims zi =
     (case type_map_get n of
        Inl e \<Rightarrow> Inl e
      | Inr c \<Rightarrow> Inr (ArrayOf (IsClass c) dims zi))"

section \<open>HiveDDLCompiler\<close>

definition squote :: "string \<Rightarrow> string" where
  \<comment> \<open>The text between two single quotes.\<close>
  "squote s = CHR 0x27 # s @ [CHR 0x27]"

fun join :: "string \<Rightarrow> string list \<Rightarrow> string" where
  \<comment> \<open>\<open>sep.join(xs)\<close>\<close>
  "join sep [] = []"
| "join sep [x] = x"
| "join sep (x # y # ys) = x @ sep @ join sep (y # ys)"

record table =
  comment :: "string option"
  hive_partitioned_by :: "string option"
  hive_clustered_by :: "string option"
  hive_stored_as :: "string option"
  hive_table_properties :: "(string \<times> string) list option"

definition table_properties :: "(string \<times> string) list \<Rightarrow> string list" where
  \<comment> \<open>The list comprehension over \<open>sorted(d.items())\<close>; the dict is given by its items in
      insertion order.\<close>
  "table_properties items = map (\<lambda>(property, value). squote property @ '' = '' @ squote value) (sort items)"

definition table_opts :: "table \<Rightarrow> string list" where
  "table_opts t =
     (case comment t of
        None \<Rightarrow> []
      | Some c \<Rightarrow> if c = [] then [] else [''COMMENT '' @ squote c]) @
     (case hive_partitioned_by t of None \<Rightarrow> [] | Some v \<Rightarrow> [''PARTITIONED BY '' @ v]) @
     (case hive_clustered_by t of None \<Rightarrow> [] | Some v \<Rightarrow> [''CLUSTERED BY '' @ v]) @
     (case hive_stored_as t of None \<Rightarrow> [] | Some v \<Rightarrow> [''STORED AS '' @ v]) @
     (case hive_table_properties t of
        None \<Rightarrow> []
      | Some items \<Rightarrow> [''TBLPROPERTIES ('' @ join '', '' (table_properties items) @ '')''])"

definition post_create_table :: "table \<Rightarrow> string" where
  "post_create_table t = CHR 0x0A # join [CHR 0x0A] (table_opts t)"

section \<open>HiveDialect\<close>

text \<open>
  The connection is the collaborator that runs a statement text: it raises (\<open>Inl\<close>) or returns
  rows. A row of \<open>DESCRIBE\<close> has the three cells \<open>col_name\<close>, \<open>data_type\<close> and \<open>comment\<close>, each
  a string or \<open>None\<close>; a row of \<open>SHOW TABLES\<close> is a list of strings.
\<close>

type_synonym 'r connection = "string \<Rightarrow> error + 'r list"

type_synonym describe_row = "string option \<times> string option \<times> string option"

text \<open>Two connections for the examples: one that always fails, one that always answers.\<close>

definition raising :: "string \<Rightarrow> 'r connection" where
  \<comment> \<open>a connection on which every statement fails with this engine error text\<close>
  "raising msg = (\<lambda>query. Inl (OperationalError msg))"

definition returning :: "'r list \<Rightarrow> 'r connection" where
  \<comment> \<open>a connection on which every statement returns these rows\<close>
  "returning rows = (\<lambda>query. Inr rows)"

definition truthy :: "string option \<Rightarrow> bool" where
  \<comment> \<open>\<open>if x:\<close> for a value that is a string or \<open>None\<close>\<close>
  "truthy x = (case x of None \<Rightarrow> False | Some s \<Rightarrow> s \<noteq> [])"

definition not_newline :: "char \<Rightarrow> bool" where
  \<comment> \<open>the class of \<open>.\<close>\<close>
  "not_newline c = (c \<noteq> CHR 0x0A)"

definition table_not_found_regex :: "string \<Rightarrow> tok list" where
  \<comment> \<open>\<open>regex_fmt.format(re.escape(full_table))\<close>: the escaped name matches itself.\<close>
  "table_not_found_regex full_table =
     [Lit ''TExecuteStatementResp'', Rep not_newline 0, Lit ''SemanticException'',
      Rep not_newline 0, Lit ''Table not found '', Lit full_table]"

definition does_not_exist_regex :: "tok list" where
  "does_not_exist_regex = [Lit ''Table '', Rep not_newline 0, Lit '' does not exist'']"

definition full_table_name :: "string \<Rightarrow> string option \<Rightarrow> string" where
  \<comment> \<open>\<open>full_table\<close>: the table name, behind the schema and a dot when \<open>if schema:\<close> holds\<close>
  "full_table_name table_name schema =
     (case schema of
        None \<Rightarrow> table_name
      | Some sc \<Rightarrow> if sc = [] then table_name else sc @ ''.'' @ table_name)"

definition get_table_columns ::
  "describe_row connection \<Rightarrow> string \<Rightarrow> string option \<Rightarrow> error + describe_row list" where
  "get_table_columns connection table_name schema =
     (let full_table = full_table_name table_name schema in
      case connection (''DESCRIBE '' @ full_table) of
        Inl (OperationalError msg) \<Rightarrow>
          if re_search (table_not_found_regex full_table) msg \<noteq> None
          then Inl (NoSuchTableError full_table)
          else Inl (OperationalError msg)
      | Inl e \<Rightarrow> Inl e
      | Inr rows \<Rightarrow>
          (case rows of
             [(col_name, data_type, cmt)] \<Rightarrow>
               (case col_name of
                  None \<Rightarrow> Inl TypeError
                | Some n \<Rightarrow>
                    if re_match does_not_exist_regex n \<noteq> None
                    then Inl (NoSuchTableError full_table)
                    else Inr rows)
           | _ \<Rightarrow> Inr rows))"

definition has_table :: "describe_row connection \<Rightarrow> string \<Rightarrow> string option \<Rightarrow> error + bool" where
  "has_table connection table_name schema =
     (case get_table_columns connection table_name schema of
        Inr rows \<Rightarrow> Inr True
      | Inl (NoSuchTableError t) \<Rightarrow> Inr False
      | Inl e \<Rightarrow> Inl e)"

subsection \<open>Parsing the rows\<close>

definition strip_cell :: "string option \<Rightarrow> string option" where
  \<comment> \<open>\<open>col.strip() if col else None\<close>\<close>
  "strip_cell col = (if truthy col then map_option strip col else None)"

definition strip_row :: "describe_row \<Rightarrow> describe_row" where
  "strip_row row = (case row of (a, b, c) \<Rightarrow> (strip_cell a, strip_cell b, strip_cell c))"

fun filter_rows :: "describe_row list \<Rightarrow> (string \<times> string option \<times> string option) list" where
  \<comment> \<open>\<open>[row for row in rows if row[0] and row[0] != "# col_name"]\<close>; a kept row has a name.\<close>
  "filter_rows [] = []"
| "filter_rows ((None, t, c) # rows) = filter_rows rows"
| "filter_rows ((Some n, t, c) # rows) =
     (if n \<noteq> [] \<and> n \<noteq> ''# col_name'' then (n, t, c) # filter_rows rows else filter_rows rows)"

definition word_regex :: "tok list" where
  \<comment> \<open>\<open>^\w+\<close>, matched at position 0\<close>
  "word_regex = [Rep is_word 1]"

definition array_regex :: "tok list" where
  \<comment> \<open>\<open>^array<(\w+)>\<close> under \<open>re.I\<close>, matched at position 0\<close>
  "array_regex = [LitI ''array<'', GOpen, Rep is_word 1, GClose, LitI ''>'']"

definition group0 :: "string \<Rightarrow> string list \<times> string \<Rightarrow> string" where
  \<comment> \<open>\<open>m.group(0)\<close> of a match at position 0: the text before the rest\<close>
  "group0 s m = take (length s - length (snd m)) s"

record column =
  name :: string
  type :: sqltype
  nullable :: bool
  default :: "string option"
  comment :: "string option"

text \<open>
  What outlives a call: the \<open>item_type\<close> attribute that \<open>get_columns\<close> assigns on a class
  object (one store for the whole process), and the warnings emitted so far.
\<close>

record module_state =
  item_type_attr :: "sqltype \<Rightarrow> sqltype option"
  warnings :: "string list"

fun columns_loop ::
  "(string \<times> string option \<times> string option) list \<Rightarrow> column list \<Rightarrow> module_state
     \<Rightarrow> (error + column list) \<times> module_state" where
  "columns_loop [] result st = (Inr result, st)"
| "columns_loop ((col_name, col_type, cmt) # rows) result st =
     (if col_name = ''# Partition Information'' then (Inr result, st)
      else case col_type of
        None \<Rightarrow> (Inl TypeError, st)
      | Some ct \<Rightarrow>
         (case re_match word_regex ct of
            None \<Rightarrow> (Inl AttributeError, st)
          | Some m \<Rightarrow>
             (let col_type_name = group0 ct m;
                  (mapped_type, st1) =
                    (case type_map_get col_type_name of
                       Inr t \<Rightarrow> (t, st)
                     | Inl e \<Rightarrow>
                         (NullType,
                          st\<lparr>warnings := warnings st @
                             [''Did not recognize type '' @ squote ct @ '' of column '' @ squote col_name]\<rparr>))
              in case re_match array_regex ct of
                   None \<Rightarrow>
                     columns_loop rows
                       (result @ [\<lparr>name = col_name, type = mapped_type, nullable = True,
                                    default = None, comment = cmt\<rparr>]) st1
                 | Some am \<Rightarrow>
                     (case type_map_get (group 1 (fst am)) of
                        Inl e \<Rightarrow> (Inl e, st1)
                      | Inr it \<Rightarrow>
                          columns_loop rows
                            (result @ [\<lparr>name = col_name, type = mapped_type, nullable = True,
                                         default = None, comment = cmt\<rparr>])
                            (st1\<lparr>item_type_attr := (item_type_attr st1)(mapped_type \<mapsto> it)\<rparr>)))))"

definition get_columns ::
  "describe_row connection \<Rightarrow> string \<Rightarrow> string option \<Rightarrow> module_state
     \<Rightarrow> (error + column list) \<times> module_state" where
  "get_columns connection table_name schema st =
     (case get_table_columns connection table_name schema of
        Inl e \<Rightarrow> (Inl e, st)
      | Inr rows \<Rightarrow> columns_loop (filter_rows (map strip_row rows)) [] st)"

record index =
  index_name :: string
  column_names :: "string list"
  unique :: bool

fun marker_loop ::
  "(string \<times> string option \<times> string option) list \<Rightarrow> nat \<Rightarrow> nat option \<Rightarrow> nat option" where
  \<comment> \<open>the value of \<open>i\<close> after the \<open>enumerate\<close> loop; \<open>None\<close> when it was never bound\<close>
  "marker_loop [] k i = i"
| "marker_loop ((col_name, col_type, cmt) # rows) k i =
     (if col_name = ''# Partition Information'' then Some k else marker_loop rows (k + 1) (Some k))"

definition get_indexes ::
  "describe_row connection \<Rightarrow> string \<Rightarrow> string option \<Rightarrow> error + index list" where
  "get_indexes connection table_name schema =
     (case get_table_columns connection table_name schema of
        Inl e \<Rightarrow> Inl e
      | Inr rows0 \<Rightarrow>
         (let rows = filter_rows (map strip_row rows0) in
          case marker_loop rows 0 None of
            None \<Rightarrow> Inl UnboundLocalError
          | Some i \<Rightarrow>
             (let col_names = map fst (drop (i + 1) rows) in
              if col_names \<noteq> []
              then Inr [\<lparr>index_name = ''partition'', column_names = col_names, unique = False\<rparr>]
              else Inr [])))"

subsection \<open>Table and view names\<close>

fun first_cells :: "string list list \<Rightarrow> error + string list" where
  \<comment> \<open>\<open>[row[0] for row in rows]\<close>\<close>
  "first_cells [] = Inr []"
| "first_cells ([] # rows) = Inl IndexError"
| "first_cells ((c # cs) # rows) =
     (case first_cells rows of Inl e \<Rightarrow> Inl e | Inr ns \<Rightarrow> Inr (c # ns))"

definition get_table_names ::
  "(string \<Rightarrow> string) \<Rightarrow> string list connection \<Rightarrow> string option \<Rightarrow> error + string list" where
  \<comment> \<open>\<open>quote_identifier\<close> is the identifier preparer's, a parameter here.\<close>
  "get_table_names quote_identifier connection schema =
     (let query = ''SHOW TABLES'' @
                  (case schema of
                     None \<Rightarrow> []
                   | Some sc \<Rightarrow> if sc = [] then [] else '' IN '' @ quote_identifier sc)
      in case connection query of Inl e \<Rightarrow> Inl e | Inr rows \<Rightarrow> first_cells rows)"

definition get_view_names ::
  "(string \<Rightarrow> string) \<Rightarrow> string list connection \<Rightarrow> string option \<Rightarrow> error + string list" where
  "get_view_names quote_identifier connection schema =
     get_table_names quote_identifier connection schema"

section \<open>Properties of the matcher\<close>

lemma first_down_complete:
  "lo \<le> k \<Longrightarrow> k \<le> hi \<Longrightarrow> f k = Some r \<Longrightarrow> \<exists>r'. first_down f lo hi = Some r'"
proof (induction hi)
  case 0
  then show ?case by simp
next
  case (Suc hi)
  show ?case
  proof (cases "k = Suc hi")
    case True
    with Suc.prems show ?thesis by simp
  next
    case False
    with Suc.prems have "k \<le> hi" by simp
    from Suc.IH[OF Suc.prems(1) this Suc.prems(3)] Suc.prems(1) \<open>k \<le> hi\<close>
    show ?thesis by (auto split: option.splits)
  qed
qed

lemma first_down_sound:
  "first_down f lo hi = Some r \<Longrightarrow> \<exists>k. lo \<le> k \<and> k \<le> hi \<and> f k = Some r"
proof (induction hi)
  case 0
  then show ?case by (auto split: if_splits)
next
  case (Suc hi)
  from Suc.prems have lo: "lo \<le> Suc hi"
    by (auto split: if_splits)
  show ?case
  proof (cases "f (Suc hi)")
    case None
    with Suc.prems lo have "first_down f lo hi = Some r" by simp
    from Suc.IH[OF this] obtain k where "lo \<le> k" "k \<le> hi" "f k = Some r" by blast
    then have "lo \<le> k \<and> k \<le> Suc hi \<and> f k = Some r" by simp
    then show ?thesis by blast
  next
    case (Some m)
    with Suc.prems lo have "f (Suc hi) = Some r" by simp
    with lo show ?thesis by blast
  qed
qed


lemma run_Lit_append:
  "run (Lit l # ts) gs None (l @ s) = run ts gs None s"
  by simp

lemma run_Rep_complete:
  assumes "\<forall>x\<in>set b. p x" and "n \<le> length b" and "run ts gs None s = Some r"
  shows "\<exists>r'. run (Rep p n # ts) gs None (b @ s) = Some r'"
proof -
  have "takeWhile p (b @ s) = b @ takeWhile p s"
    using assms(1) by (simp add: takeWhile_append2)
  then have hi: "length b \<le> length (takeWhile p (b @ s))" by simp
  have "run ts gs None (drop (length b) (b @ s)) = Some r"
    using assms(3) by simp
  from first_down_complete[of n "length b" _ "\<lambda>k. run ts gs None (drop k (b @ s))", OF assms(2) hi this]
  show ?thesis by simp
qed

lemma run_Lit_sound:
  "run (Lit l # ts) gs None s = Some r \<Longrightarrow> \<exists>s'. s = l @ s' \<and> run ts gs None s' = Some r"
  by (metis append_take_drop_id run.simps(2) option.distinct(1) option.map(1))

lemma run_Rep_sound:
  assumes "run (Rep p n # ts) gs None s = Some r"
  shows "\<exists>b s'. s = b @ s' \<and> (\<forall>x\<in>set b. p x) \<and> n \<le> length b \<and> run ts gs None s' = Some r"
proof -
  from assms obtain k where k: "n \<le> k" "k \<le> length (takeWhile p s)"
      "run ts gs None (drop k s) = Some r"
    using first_down_sound[of "\<lambda>k. run ts gs None (drop k s)" n "length (takeWhile p s)" r]
    by auto
  have "take k s = take k (takeWhile p s)"
    using k(2) by (metis takeWhile_dropWhile_id take_append diff_is_0_eq' take0 append_Nil2)
  then have "\<forall>x\<in>set (take k s). p x"
    by (metis in_set_takeD set_takeWhileD)
  moreover have "length (take k s) = k"
    using k(2) by (metis length_take min.absorb2 length_takeWhile_le order_trans)
  ultimately show ?thesis
    using k by (metis append_take_drop_id)
qed

lemma re_search_complete:
  "run ts [] None s = Some r \<Longrightarrow> \<exists>r'. re_search ts (a @ s) = Some r'"
proof (induction a)
  case Nil
  then show ?case by (cases s) auto
next
  case (Cons c a)
  then show ?case by (auto split: option.splits)
qed

lemma re_search_sound:
  "re_search ts s = Some r \<Longrightarrow> \<exists>a s'. s = a @ s' \<and> run ts [] None s' = Some r"
proof (induction s)
  case Nil
  then show ?case by simp
next
  case (Cons c s)
  show ?case
  proof (cases "run ts [] None (c # s)")
    case None
    with Cons.prems have "re_search ts s = Some r" by simp
    from Cons.IH[OF this] obtain a s' where "s = a @ s'" "run ts [] None s' = Some r" by blast
    then have "c # s = (c # a) @ s'" by simp
    with \<open>run ts [] None s' = Some r\<close> show ?thesis by blast
  next
    case (Some m)
    with Cons.prems have "run ts [] None (c # s) = Some r" by simp
    then show ?thesis by (metis append_Nil)
  qed
qed

lemma table_not_found_iff:
  "re_search (table_not_found_regex full_table) msg \<noteq> None \<longleftrightarrow>
   (\<exists>a b c d. msg = a @ ''TExecuteStatementResp'' @ b @ ''SemanticException'' @ c @
                    ''Table not found '' @ full_table @ d \<and>
              CHR 0x0A \<notin> set b \<and> CHR 0x0A \<notin> set c)"
  (is "?L \<longleftrightarrow> ?R")
proof
  assume ?L
  then obtain r where "re_search (table_not_found_regex full_table) msg = Some r" by blast
  from re_search_sound[OF this] obtain a s0 where
    a: "msg = a @ s0" and "run (table_not_found_regex full_table) [] None s0 = Some r" by blast
  then have r0: "run [Lit ''TExecuteStatementResp'', Rep not_newline 0, Lit ''SemanticException'',
      Rep not_newline 0, Lit ''Table not found '', Lit full_table] [] None s0 = Some r"
    by (simp only: table_not_found_regex_def)
  from run_Lit_sound[OF r0] obtain s1 where
    s1: "s0 = ''TExecuteStatementResp'' @ s1" and
    r1: "run [Rep not_newline 0, Lit ''SemanticException'',
      Rep not_newline 0, Lit ''Table not found '', Lit full_table] [] None s1 = Some r" by blast
  from run_Rep_sound[OF r1] obtain b s2 where
    s2: "s1 = b @ s2" and b: "\<forall>x\<in>set b. not_newline x" and
    r2: "run [Lit ''SemanticException'',
      Rep not_newline 0, Lit ''Table not found '', Lit full_table] [] None s2 = Some r" by blast
  from run_Lit_sound[OF r2] obtain s3 where
    s3: "s2 = ''SemanticException'' @ s3" and
    r3: "run [Rep not_newline 0, Lit ''Table not found '', Lit full_table] [] None s3 = Some r" by blast
  from run_Rep_sound[OF r3] obtain c s4 where
    s4: "s3 = c @ s4" and c: "\<forall>x\<in>set c. not_newline x" and
    r4: "run [Lit ''Table not found '', Lit full_table] [] None s4 = Some r" by blast
  from run_Lit_sound[OF r4] obtain s5 where
    s5: "s4 = ''Table not found '' @ s5" and
    r5: "run [Lit full_table] [] None s5 = Some r" by blast
  from run_Lit_sound[OF r5] obtain d where
    s6: "s5 = full_table @ d" by blast
  have "msg = a @ ''TExecuteStatementResp'' @ b @ ''SemanticException'' @ c @
                    ''Table not found '' @ full_table @ d"
    by (simp only: a s1 s2 s3 s4 s5 s6)
  moreover have "CHR 0x0A \<notin> set b" "CHR 0x0A \<notin> set c"
    using b c by (auto simp: not_newline_def)
  ultimately show ?R by blast
next
  assume ?R
  then obtain a b c d where
    msg: "msg = a @ ''TExecuteStatementResp'' @ b @ ''SemanticException'' @ c @
                    ''Table not found '' @ full_table @ d" and
    b: "\<forall>x\<in>set b. not_newline x" and c: "\<forall>x\<in>set c. not_newline x"
    by (auto simp: not_newline_def)
  have r5: "run [Lit full_table] [] None (full_table @ d) = Some ([], d)"
    by simp
  then have r4: "run [Lit ''Table not found '', Lit full_table] [] None
      (''Table not found '' @ full_table @ d) = Some ([], d)"
    by (simp only: run_Lit_append)
  from run_Rep_complete[OF c _ r4, of 0] obtain r3 where
    r3: "run [Rep not_newline 0, Lit ''Table not found '', Lit full_table] [] None
      (c @ ''Table not found '' @ full_table @ d) = Some r3" by auto
  then have r2: "run [Lit ''SemanticException'', Rep not_newline 0, Lit ''Table not found '', Lit full_table] [] None
      (''SemanticException'' @ c @ ''Table not found '' @ full_table @ d) = Some r3"
    by (simp only: run_Lit_append)
  from run_Rep_complete[OF b _ r2, of 0] obtain r1 where
    r1: "run [Rep not_newline 0, Lit ''SemanticException'', Rep not_newline 0, Lit ''Table not found '', Lit full_table] [] None
      (b @ ''SemanticException'' @ c @ ''Table not found '' @ full_table @ d) = Some r1" by auto
  then have "run (table_not_found_regex full_table) [] None
      (''TExecuteStatementResp'' @ b @ ''SemanticException'' @ c @ ''Table not found '' @ full_table @ d) = Some r1"
    by (simp only: run_Lit_append table_not_found_regex_def)
  from re_search_complete[OF this, of a] show ?L
    by (auto simp only: msg)
qed

section \<open>Properties of the statement compiler\<close>

lemma visit_insert_plain:
  "visit_insert ''INSERT INTO db.tbl (a, b) SELECT 1, 2'' = Inr ''INSERT INTO TABLE db.tbl SELECT 1, 2''"
  by code_simp

lemma visit_insert_partition:
  "visit_insert ''INSERT INTO db.tbl PARTITION (p=1) (a) SELECT 1'' =
     Inr ''INSERT INTO TABLE db.tbl PARTITION (p=1) SELECT 1''"
  by code_simp

text \<open>
  Claim C2. The INSERT rewriting maps \<open>INSERT INTO db.tbl (a, b) SELECT 1, 2\<close> to
  \<open>INSERT INTO TABLE db.tbl SELECT 1, 2\<close>, maps
  \<open>INSERT INTO db.tbl PARTITION (p=1) (a) SELECT 1\<close> to
  \<open>INSERT INTO TABLE db.tbl PARTITION (p=1) SELECT 1\<close>, and on a rendered text that matches
  neither the plain nor the partitioned pattern it fails with the assertion error instead
  of returning text.
\<close>

theorem visit_insert_rewrites:
  "visit_insert ''INSERT INTO db.tbl (a, b) SELECT 1, 2'' = Inr ''INSERT INTO TABLE db.tbl SELECT 1, 2'' \<and>
   visit_insert ''INSERT INTO db.tbl PARTITION (p=1) (a) SELECT 1'' =
     Inr ''INSERT INTO TABLE db.tbl PARTITION (p=1) SELECT 1'' \<and>
   (\<forall>result. re_search insert_regex result = None \<and> re_search insert_partition_regex result = None \<longrightarrow>
      visit_insert result = Inl (AssertionError (''Unexpected visit_insert result: '' @ result)))"
  using visit_insert_plain visit_insert_partition by (simp add: visit_insert_def)

theorem visit_insert_rewrites_witness:
  "re_search insert_regex ''UPDATE t SET a = 1'' = None \<and>
   re_search insert_partition_regex ''UPDATE t SET a = 1'' = None \<and>
   visit_insert ''UPDATE t SET a = 1'' =
     Inl (AssertionError ''Unexpected visit_insert result: UPDATE t SET a = 1'')"
proof -
  have a: "re_search insert_regex ''UPDATE t SET a = 1'' = None" by code_simp
  have b: "re_search insert_partition_regex ''UPDATE t SET a = 1'' = None" by code_simp
  from visit_insert_rewrites a b show ?thesis by simp
qed

lemma no_dots: "CHR ''.'' \<notin> set xs \<Longrightarrow> filter (\<lambda>c. c = CHR ''.'') xs = []"
  by (induction xs) auto

lemma visit_column_schema_general:
  assumes "CHR ''.'' \<notin> set s" and "CHR ''.'' \<notin> set t" and "CHR ''.'' \<notin> set c"
  shows "visit_column (s @ ''.'' @ t @ ''.'' @ c) = Inr (t @ ''.'' @ c)"
proof -
  have n: "length (filter (\<lambda>c. c = CHR ''.'') (s @ ''.'' @ t @ ''.'' @ c)) = 2"
    using assms by (simp add: no_dots)
  have "takeWhile (\<lambda>c. c \<noteq> CHR ''.'') (s @ ''.'' @ t @ ''.'' @ c) = s"
    using assms(1) by (auto simp add: takeWhile_tail)
  then show ?thesis
    unfolding visit_column_def n by simp
qed

lemma visit_column_table_general:
  assumes "CHR ''.'' \<notin> set t" and "CHR ''.'' \<notin> set c"
  shows "visit_column (t @ ''.'' @ c) = Inr (t @ ''.'' @ c)"
  using assms by (simp add: visit_column_def no_dots)

lemma visit_column_bare_general:
  assumes "CHR ''.'' \<notin> set c"
  shows "visit_column c = Inr c"
  using assms by (simp add: visit_column_def no_dots)

text \<open>
  Claim C6. Column reference rewriting outputs \<open>t.c\<close> for \<open>s.t.c\<close>, leaves \<open>t.c\<close> and \<open>c\<close>
  unchanged, and fails with the assertion error on every rendered reference with more than
  two separators. The first three hold for all dot-free segments, not only for the
  one-letter ones.
\<close>

theorem visit_column_rewrites:
  "visit_column ''s.t.c'' = Inr ''t.c'' \<and>
   visit_column ''t.c'' = Inr ''t.c'' \<and>
   visit_column ''c'' = Inr ''c'' \<and>
   (\<forall>s t c. CHR ''.'' \<notin> set s \<and> CHR ''.'' \<notin> set t \<and> CHR ''.'' \<notin> set c \<longrightarrow>
      visit_column (s @ ''.'' @ t @ ''.'' @ c) = Inr (t @ ''.'' @ c) \<and>
      visit_column (t @ ''.'' @ c) = Inr (t @ ''.'' @ c) \<and>
      visit_column c = Inr c) \<and>
   (\<forall>result. 2 < length (filter (\<lambda>c. c = CHR ''.'') result) \<longrightarrow>
      visit_column result = Inl (AssertionError (''Unexpected visit_column result '' @ result)))"
proof -
  have "visit_column ''s.t.c'' = Inr ''t.c''" by (simp add: visit_column_def)
  moreover have "visit_column ''t.c'' = Inr ''t.c''" by (simp add: visit_column_def)
  moreover have "visit_column ''c'' = Inr ''c''" by (simp add: visit_column_def)
  moreover have "\<forall>result. 2 < length (filter (\<lambda>c. c = CHR ''.'') result) \<longrightarrow>
      visit_column result = Inl (AssertionError (''Unexpected visit_column result '' @ result))"
    by (simp add: visit_column_def)
  ultimately show ?thesis
    using visit_column_schema_general visit_column_table_general visit_column_bare_general
    by blast
qed

theorem visit_column_rewrites_witness:
  "2 < length (filter (\<lambda>c. c = CHR ''.'') ''a.b.c.d'') \<and>
   visit_column ''a.b.c.d'' = Inl (AssertionError ''Unexpected visit_column result a.b.c.d'') \<and>
   CHR ''.'' \<notin> set ''db'' \<and> CHR ''.'' \<notin> set ''tbl'' \<and> CHR ''.'' \<notin> set ''col'' \<and>
   visit_column ''db.tbl.col'' = Inr ''tbl.col''"
proof -
  have a: "2 < length (filter (\<lambda>c. c = CHR ''.'') ''a.b.c.d'')" by simp
  have b: "CHR ''.'' \<notin> set ''db'' \<and> CHR ''.'' \<notin> set ''tbl'' \<and> CHR ''.'' \<notin> set ''col''" by simp
  from visit_column_rewrites have
    "2 < length (filter (\<lambda>c. c = CHR ''.'') ''a.b.c.d'') \<longrightarrow>
       visit_column ''a.b.c.d'' = Inl (AssertionError (''Unexpected visit_column result '' @ ''a.b.c.d''))"
    by blast
  moreover from visit_column_rewrites have
    "CHR ''.'' \<notin> set ''db'' \<and> CHR ''.'' \<notin> set ''tbl'' \<and> CHR ''.'' \<notin> set ''col'' \<longrightarrow>
       visit_column (''db'' @ ''.'' @ ''tbl'' @ ''.'' @ ''col'') = Inr (''tbl'' @ ''.'' @ ''col'')"
    by blast
  ultimately show ?thesis using a b by simp
qed

section \<open>Properties of the DDL compiler\<close>

lemma sorted_keys: "sorted (map fst (sort (items :: (string \<times> string) list)))"
proof -
  have "sorted_wrt (\<le>) (sort items)" by simp
  then have "sorted_wrt (\<lambda>x y. fst x \<le> fst y) (sort items)"
    by (rule sorted_wrt_mono_rel[rotated]) (auto simp: less_eq_prod_def)
  then show ?thesis by (simp add: sorted_map)
qed

lemma sort_perm: "mset items = mset items' \<Longrightarrow> sort items = sort (items' :: (string \<times> string) list)"
  by (rule properties_for_sort) simp_all

lemma tbl_example:
  "post_create_table \<lparr>table.comment = None, hive_partitioned_by = None, hive_clustered_by = None,
      hive_stored_as = None, hive_table_properties = Some [(''b'', ''2''), (''a'', ''1'')]\<rparr> =
    CHR 0x0A # ''TBLPROPERTIES ('' @ [CHR 0x27] @ ''a'' @ [CHR 0x27] @ '' = '' @ [CHR 0x27] @ ''1'' @ [CHR 0x27] @ '', '' @
       [CHR 0x27] @ ''b'' @ [CHR 0x27] @ '' = '' @ [CHR 0x27] @ ''2'' @ [CHR 0x27] @ '')''"
  by code_simp

lemma join_snoc:
  "join sep (xs @ [c]) = (if xs = [] then c else join sep xs @ sep @ c)"
  by (induction sep xs rule: join.induct) auto

lemma join_nonempty:
  assumes "xs \<noteq> []" and "hd xs \<noteq> []"
  shows "join sep xs \<noteq> []"
proof (cases xs)
  case Nil
  with assms show ?thesis by simp
next
  case (Cons x ys)
  with assms show ?thesis by (cases ys) auto
qed

lemma table_opts_append:
  "table_opts (t\<lparr>hive_table_properties := Some items\<rparr>) =
     table_opts (t\<lparr>hive_table_properties := None\<rparr>) @
     [''TBLPROPERTIES ('' @ join '', '' (table_properties items) @ '')'']"
  by (simp add: table_opts_def)

lemma table_opts_hd_nonempty:
  "table_opts t \<noteq> [] \<Longrightarrow> hd (table_opts t) \<noteq> []"
  by (auto simp add: table_opts_def squote_def split: option.splits if_splits)

lemma post_create_table_bare:
  "post_create_table t = [CHR 0x0A] \<longleftrightarrow> table_opts t = []"
  using join_nonempty[OF _ table_opts_hd_nonempty, of t "[CHR 0x0A]"]
  by (auto simp add: post_create_table_def)

lemma post_create_table_properties_last:
  "post_create_table (t\<lparr>hive_table_properties := Some items\<rparr>) =
     (if post_create_table (t\<lparr>hive_table_properties := None\<rparr>) = [CHR 0x0A] then []
      else post_create_table (t\<lparr>hive_table_properties := None\<rparr>)) @
     CHR 0x0A # ''TBLPROPERTIES ('' @
       join '', '' (map (\<lambda>(k, v). CHR 0x27 # k @ [CHR 0x27] @ '' = '' @ CHR 0x27 # v @ [CHR 0x27])
                     (sort items)) @ '')''"
proof (cases "table_opts (t\<lparr>hive_table_properties := None\<rparr>) = []")
  case True
  then have "post_create_table (t\<lparr>hive_table_properties := None\<rparr>) = [CHR 0x0A]"
    by (simp add: post_create_table_bare)
  moreover have "post_create_table (t\<lparr>hive_table_properties := Some items\<rparr>) =
      CHR 0x0A # ''TBLPROPERTIES ('' @ join '', '' (table_properties items) @ '')''"
    using True by (simp add: post_create_table_def table_opts_append)
  ultimately show ?thesis
    by (simp add: table_properties_def squote_def)
next
  case False
  then have ne: "post_create_table (t\<lparr>hive_table_properties := None\<rparr>) \<noteq> [CHR 0x0A]"
    by (simp add: post_create_table_bare)
  have "post_create_table (t\<lparr>hive_table_properties := Some items\<rparr>) =
      post_create_table (t\<lparr>hive_table_properties := None\<rparr>) @
      CHR 0x0A # ''TBLPROPERTIES ('' @ join '', '' (table_properties items) @ '')''"
    using False by (simp add: post_create_table_def table_opts_append join_snoc)
  with ne show ?thesis
    by (simp add: table_properties_def squote_def)
qed

text \<open>
  Claim C8. The table-properties clause for the mapping \<open>{"b": "2", "a": "1"}\<close> is
  \<open>TBLPROPERTIES ('a' = '1', 'b' = '2')\<close>. In general, for every table and every mapping,
  the text \<open>post_create_table\<close> emits ends with the line
  \<open>TBLPROPERTIES (\<close>...\<open>)\<close> holding the pairs \<open>'key' = 'value'\<close> of the mapping, joined by
  \<open>, \<close>, in the order \<open>sorted\<close> gives the items: the same pairs, their keys sorted
  lexicographically. For a table with no other option that line is the whole text. Two
  mappings with the same items in a different insertion order give the same text.
\<close>

theorem table_properties_sorted:
  "post_create_table \<lparr>table.comment = None, hive_partitioned_by = None, hive_clustered_by = None,
      hive_stored_as = None, hive_table_properties = Some [(''b'', ''2''), (''a'', ''1'')]\<rparr> =
    CHR 0x0A # ''TBLPROPERTIES ('' @ [CHR 0x27] @ ''a'' @ [CHR 0x27] @ '' = '' @ [CHR 0x27] @ ''1'' @ [CHR 0x27] @ '', '' @
       [CHR 0x27] @ ''b'' @ [CHR 0x27] @ '' = '' @ [CHR 0x27] @ ''2'' @ [CHR 0x27] @ '')'' \<and>
   (\<forall>t items.
      post_create_table (t\<lparr>hive_table_properties := Some items\<rparr>) =
        (if post_create_table (t\<lparr>hive_table_properties := None\<rparr>) = [CHR 0x0A] then []
         else post_create_table (t\<lparr>hive_table_properties := None\<rparr>)) @
        CHR 0x0A # ''TBLPROPERTIES ('' @
          join '', '' (map (\<lambda>(k, v). CHR 0x27 # k @ [CHR 0x27] @ '' = '' @ CHR 0x27 # v @ [CHR 0x27])
                        (sort items)) @ '')'' \<and>
      sorted (map fst (sort items)) \<and> mset (sort items) = mset items) \<and>
   (\<forall>items.
      post_create_table \<lparr>table.comment = None, hive_partitioned_by = None, hive_clustered_by = None,
        hive_stored_as = None, hive_table_properties = Some items\<rparr> =
        CHR 0x0A # ''TBLPROPERTIES ('' @
          join '', '' (map (\<lambda>(k, v). CHR 0x27 # k @ [CHR 0x27] @ '' = '' @ CHR 0x27 # v @ [CHR 0x27])
                        (sort items)) @ '')'') \<and>
   (\<forall>t items items'. mset items = mset items' \<longrightarrow>
      post_create_table (t\<lparr>hive_table_properties := Some items\<rparr>) =
      post_create_table (t\<lparr>hive_table_properties := Some items'\<rparr>))"
proof -
  have perm: "post_create_table (t\<lparr>hive_table_properties := Some items\<rparr>) =
      post_create_table (t\<lparr>hive_table_properties := Some items'\<rparr>)"
    if "mset items = mset items'" for t :: table and items items'
  proof -
    from that have "sort items = sort items'" by (rule sort_perm)
    then show ?thesis
      by (simp add: post_create_table_def table_opts_def table_properties_def)
  qed
  have bare: "post_create_table \<lparr>table.comment = None, hive_partitioned_by = None, hive_clustered_by = None,
        hive_stored_as = None, hive_table_properties = Some items\<rparr> =
        CHR 0x0A # ''TBLPROPERTIES ('' @
          join '', '' (map (\<lambda>(k, v). CHR 0x27 # k @ [CHR 0x27] @ '' = '' @ CHR 0x27 # v @ [CHR 0x27])
                        (sort items)) @ '')''" for items
    by (simp add: post_create_table_def table_opts_def table_properties_def squote_def)
  have srt: "sorted (map fst (sort items)) \<and> mset (sort items) = mset items"
    for items :: "(string \<times> string) list"
    using sorted_keys[of items] by simp
  from tbl_example post_create_table_properties_last srt bare perm show ?thesis by blast
qed

theorem table_properties_sorted_witness:
  "mset [(''b'', ''2''), (''a'', ''1'')] = mset [(''a'', ''1''), (''b'', ''2'')] \<and>
   post_create_table \<lparr>table.comment = None, hive_partitioned_by = None, hive_clustered_by = None,
      hive_stored_as = None, hive_table_properties = Some [(''b'', ''2''), (''a'', ''1'')]\<rparr> =
   post_create_table \<lparr>table.comment = None, hive_partitioned_by = None, hive_clustered_by = None,
      hive_stored_as = None, hive_table_properties = Some [(''a'', ''1''), (''b'', ''2'')]\<rparr>"
proof -
  have m: "mset [(''b'', ''2''), (''a'', ''1'')] = mset [(''a'', ''1''), (''b'', ''2'' :: string)]"
    by (simp add: add_mset_commute)
  from table_properties_sorted have
    "mset [(''b'', ''2''), (''a'', ''1'')] = mset [(''a'', ''1''), (''b'', ''2'')] \<longrightarrow>
      post_create_table (\<lparr>table.comment = None, hive_partitioned_by = None, hive_clustered_by = None,
      hive_stored_as = None, hive_table_properties = None\<rparr>\<lparr>hive_table_properties := Some [(''b'', ''2''), (''a'', ''1'')]\<rparr>) =
      post_create_table (\<lparr>table.comment = None, hive_partitioned_by = None, hive_clustered_by = None,
      hive_stored_as = None, hive_table_properties = None\<rparr>\<lparr>hive_table_properties := Some [(''a'', ''1''), (''b'', ''2'')]\<rparr>)"
    by blast
  with m show ?thesis by simp
qed

section \<open>Properties of the type classes\<close>

text \<open>
  Claim C5. Binding a value for writing fails for the types Date, Timestamp and Decimal:
  each of the three classes finds \<open>process_bind_param\<close> (in its base class), and that
  method raises \<open>NotImplementedError\<close> on every value and every dialect.
\<close>

theorem process_bind_param_unsupported:
  "(\<exists>m. process_bind_param HiveDate = Some m \<and>
        (\<forall>v d. m v d = Inl (NotImplementedError ''Writing to Hive not supported''))) \<and>
   (\<exists>m. process_bind_param HiveTimestamp = Some m \<and>
        (\<forall>v d. m v d = Inl (NotImplementedError ''Writing to Hive not supported''))) \<and>
   (\<exists>m. process_bind_param HiveDecimal = Some m \<and>
        (\<forall>v d. m v d = Inl (NotImplementedError ''Writing to Hive not supported'')))"
  by (simp add: process_bind_param_def own_process_bind_param_def superclass_def)

lemma array_instance_rejected:
  "class_of t = HiveArray \<Longrightarrow>
   HiveArray_init (ByObject t) dims zi =
     Inl (ValueError ''Do not nest ARRAY types; ARRAY(basetype) handles multi-dimensional arrays of basetype'')"
  by simp

lemma array_class_rejected:
  "HiveArray_init (ByClass HiveArray) dims zi = Inl TypeError"
  by (simp add: instantiate_def)

text \<open>
  Claim C4 says that an Array type can never be built around an Array type. The constructor
  checks this for a type object only; the registry name \<open>array\<close> is resolved after the
  check, and the Array class is stored as the item type.
\<close>

theorem array_by_name_nests:
  "HiveArray_init (ByName ''array'') dims zi = Inr (ArrayOf (IsClass HiveArray) dims zi)"
  by (simp add: type_map_get_def type_map_def)

section \<open>Properties of the dialect\<close>

text \<open>
  Claim C10. For every connection and schema argument \<open>get_view_names\<close> returns what
  \<open>get_table_names\<close> returns on the same arguments: the same list, or the same error.
\<close>

theorem get_view_names_is_get_table_names:
  "get_view_names quote_identifier connection schema =
     get_table_names quote_identifier connection schema"
  by (simp add: get_view_names_def)

text \<open>
  Claim C3, as it stands, is false: an error text can contain \<open>SemanticException\<close> and
  \<open>Table not found mytable\<close> and still be raised again, because the signature also asks for
  \<open>TExecuteStatementResp\<close> before them.
\<close>

theorem has_table_counterexample:
  "has_table (raising ''SemanticException [Error 10001]: Table not found mytable'') ''mytable'' None =
     Inl (OperationalError ''SemanticException [Error 10001]: Table not found mytable'')"
  by code_simp

text \<open>
  Claim C3, amended. When the descriptive query fails with an engine error, \<open>has_table\<close>
  returns false exactly when the error text contains \<open>TExecuteStatementResp\<close>, then
  \<open>SemanticException\<close>, then \<open>Table not found\<close> and the (schema-qualified) table name, in
  this order and with no line break between the three; on every other error text the error
  is propagated unchanged. With no schema and the table \<open>mytable\<close> the last part is
  \<open>Table not found mytable\<close>.
\<close>

theorem has_table_on_engine_error:
  assumes "connection (''DESCRIBE '' @ full_table_name table_name schema) = Inl (OperationalError msg)"
  shows "has_table connection table_name schema =
     (if \<exists>a b c d. msg = a @ ''TExecuteStatementResp'' @ b @ ''SemanticException'' @ c @
                         ''Table not found '' @ full_table_name table_name schema @ d \<and>
                   CHR 0x0A \<notin> set b \<and> CHR 0x0A \<notin> set c
      then Inr False else Inl (OperationalError msg))"
proof (cases "re_search (table_not_found_regex (full_table_name table_name schema)) msg")
  case None
  then have "\<not> (\<exists>a b c d. msg = a @ ''TExecuteStatementResp'' @ b @ ''SemanticException'' @ c @
                         ''Table not found '' @ full_table_name table_name schema @ d \<and>
                   CHR 0x0A \<notin> set b \<and> CHR 0x0A \<notin> set c)"
    using table_not_found_iff[of "full_table_name table_name schema" msg] by simp
  moreover have "has_table connection table_name schema = Inl (OperationalError msg)"
    using assms None by (simp add: has_table_def get_table_columns_def)
  ultimately show ?thesis by simp
next
  case (Some r)
  then have "\<exists>a b c d. msg = a @ ''TExecuteStatementResp'' @ b @ ''SemanticException'' @ c @
                         ''Table not found '' @ full_table_name table_name schema @ d \<and>
                   CHR 0x0A \<notin> set b \<and> CHR 0x0A \<notin> set c"
    using table_not_found_iff[of "full_table_name table_name schema" msg] by simp
  moreover have "has_table connection table_name schema = Inr False"
    using assms Some by (simp add: has_table_def get_table_columns_def)
  ultimately show ?thesis by simp
qed

theorem has_table_on_engine_error_witness:
  "has_table (raising ''TExecuteStatementResp(status=ERROR) SemanticException [Error 10001]: Table not found mytable'')
      ''mytable'' None = Inr False \<and>
   has_table (raising ''connection reset'') ''mytable'' None = Inl (OperationalError ''connection reset'')"
proof -
  have d: "''TExecuteStatementResp(status=ERROR) SemanticException [Error 10001]: Table not found mytable'' =
     [] @ ''TExecuteStatementResp'' @ ''(status=ERROR) '' @ ''SemanticException'' @ '' [Error 10001]: '' @
       ''Table not found '' @ ''mytable'' @ [] \<and>
     CHR 0x0A \<notin> set ''(status=ERROR) '' \<and> CHR 0x0A \<notin> set '' [Error 10001]: ''"
    by simp
  have ex: "\<exists>a b c d. ''TExecuteStatementResp(status=ERROR) SemanticException [Error 10001]: Table not found mytable'' =
       a @ ''TExecuteStatementResp'' @ b @ ''SemanticException'' @ c @ ''Table not found '' @ ''mytable'' @ d \<and>
       CHR 0x0A \<notin> set b \<and> CHR 0x0A \<notin> set c"
    using d by blast
  have c1: "raising ''TExecuteStatementResp(status=ERROR) SemanticException [Error 10001]: Table not found mytable''
      (''DESCRIBE '' @ full_table_name ''mytable'' None) =
      (Inl (OperationalError ''TExecuteStatementResp(status=ERROR) SemanticException [Error 10001]: Table not found mytable'')
         :: error + describe_row list)"
    by (simp add: raising_def)
  have first: "has_table (raising ''TExecuteStatementResp(status=ERROR) SemanticException [Error 10001]: Table not found mytable'')
      ''mytable'' None = Inr False"
    using has_table_on_engine_error[of "raising ''TExecuteStatementResp(status=ERROR) SemanticException [Error 10001]: Table not found mytable''"
        "''mytable''" None "''TExecuteStatementResp(status=ERROR) SemanticException [Error 10001]: Table not found mytable''", OF c1] ex
    by (simp add: full_table_name_def)
  have nex: "\<not> (\<exists>a b c d. ''connection reset'' =
       a @ ''TExecuteStatementResp'' @ b @ ''SemanticException'' @ c @ ''Table not found '' @ ''mytable'' @ d \<and>
       CHR 0x0A \<notin> set b \<and> CHR 0x0A \<notin> set c)"
  proof -
    have "re_search (table_not_found_regex ''mytable'') ''connection reset'' = None"
      by code_simp
    then show ?thesis using table_not_found_iff[of "''mytable''" "''connection reset''"] by simp
  qed
  have c2: "raising ''connection reset'' (''DESCRIBE '' @ full_table_name ''mytable'' None) =
      (Inl (OperationalError ''connection reset'') :: error + describe_row list)"
    by (simp add: raising_def)
  have second: "has_table (raising ''connection reset'') ''mytable'' None = Inl (OperationalError ''connection reset'')"
    using has_table_on_engine_error[of "raising ''connection reset''" "''mytable''" None "''connection reset''", OF c2] nex
    by (simp add: full_table_name_def)
  from first second show ?thesis by (rule conjI)
qed

text \<open>
  Claim C1. For the five descriptive rows of the example, \<open>get_columns\<close> returns the two
  columns \<open>a\<close> of type Integer and \<open>b\<close> of type Array, in that order, and leaves Integer as the
  item type of the Array entry; \<open>get_indexes\<close> on the same rows returns the one partition
  index with the column names \<open>[p]\<close>.
\<close>

theorem introspection_example:
  "get_columns
     (returning [(Some ''a'', Some ''int'', None), (Some ''b'', Some ''array<int>'', None),
                 (Some ''# Partition Information'', None, None), (Some '''', Some '''', None),
                 (Some ''p'', Some ''string'', None)]) table_name schema st =
     (Inr [\<lparr>name = ''a'', type = Integer, nullable = True, default = None, comment = None\<rparr>,
           \<lparr>name = ''b'', type = HiveArray, nullable = True, default = None, comment = None\<rparr>],
      st\<lparr>item_type_attr := (item_type_attr st)(HiveArray \<mapsto> Integer)\<rparr>) \<and>
   get_indexes
     (returning [(Some ''a'', Some ''int'', None), (Some ''b'', Some ''array<int>'', None),
                 (Some ''# Partition Information'', None, None), (Some '''', Some '''', None),
                 (Some ''p'', Some ''string'', None)]) table_name schema =
     Inr [\<lparr>index_name = ''partition'', column_names = [''p''], unique = False\<rparr>]"
proof -
  have "get_columns
     (returning [(Some ''a'', Some ''int'', None), (Some ''b'', Some ''array<int>'', None),
                 (Some ''# Partition Information'', None, None), (Some '''', Some '''', None),
                 (Some ''p'', Some ''string'', None)]) table_name schema st =
     (Inr [\<lparr>name = ''a'', type = Integer, nullable = True, default = None, comment = None\<rparr>,
           \<lparr>name = ''b'', type = HiveArray, nullable = True, default = None, comment = None\<rparr>],
      st\<lparr>item_type_attr := (item_type_attr st)(HiveArray \<mapsto> Integer)\<rparr>)"
    by (simp add: returning_def get_columns_def get_table_columns_def strip_row_def strip_cell_def truthy_def
        strip_def is_space_def re_match_def word_regex_def array_regex_def is_word_def lower_def
        group0_def type_map_get_def type_map_def group_def)
  moreover have "get_indexes
     (returning [(Some ''a'', Some ''int'', None), (Some ''b'', Some ''array<int>'', None),
                 (Some ''# Partition Information'', None, None), (Some '''', Some '''', None),
                 (Some ''p'', Some ''string'', None)]) table_name schema =
     Inr [\<lparr>index_name = ''partition'', column_names = [''p''], unique = False\<rparr>]"
    by (simp add: returning_def get_indexes_def get_table_columns_def strip_row_def strip_cell_def truthy_def
        strip_def is_space_def)
  ultimately show ?thesis by (rule conjI)
qed
















lemma unrecognized_type_continues:
  assumes "col_name \<noteq> ''# Partition Information''"
    and "re_match word_regex ct = Some m"
    and "map_of type_map (group0 ct m) = None"
    and "re_match array_regex ct = None"
  shows "columns_loop ((col_name, Some ct, cmt) # rows) result st =
     columns_loop rows
       (result @ [\<lparr>name = col_name, type = NullType, nullable = True, default = None, comment = cmt\<rparr>])
       (st\<lparr>warnings := warnings st @
          [''Did not recognize type '' @ squote ct @ '' of column '' @ squote col_name]\<rparr>)"
  using assms by (simp add: type_map_get_def)

text \<open>
  Claim C7 says that a column whose type token is not in the registry never aborts the
  introspection. The text \<open>ARRAY<INT>\<close> has the unknown token \<open>ARRAY\<close>: the warning is emitted
  and \<open>NullType\<close> substituted, but the text also matches the case-insensitive array pattern,
  and the item lookup \<open>_type_map["INT"]\<close>, which is outside the \<open>try\<close>, raises \<open>KeyError\<close>:
  the column \<open>d\<close> after it is never reached.
\<close>

theorem unrecognized_array_text_aborts:
  "get_columns (returning [(Some ''c'', Some ''ARRAY<INT>'', None), (Some ''d'', Some ''int'', None)])
       table_name schema st =
     (Inl (KeyError ''INT''),
      st\<lparr>warnings := warnings st @
          [''Did not recognize type '' @ [CHR 0x27] @ ''ARRAY<INT>'' @ [CHR 0x27] @ '' of column '' @
           [CHR 0x27] @ ''c'' @ [CHR 0x27]]\<rparr>)"
  by (simp add: returning_def get_columns_def get_table_columns_def strip_row_def strip_cell_def truthy_def
        strip_def is_space_def re_match_def word_regex_def array_regex_def is_word_def lower_def
        group0_def type_map_get_def type_map_def group_def squote_def)

end
